theory Spec2Isabelle
  imports Main "HOL-Library.Word" "HOL-Library.Sublist"
begin

section \<open>Python values used by \<open>ocrmypdf/pdfa.py\<close>\<close>

text \<open>
  A Python \<open>str\<close> is a sequence of Unicode code points (\<open>0 .. 0x10FFFF\<close>, lone
  surrogates included); \<open>bytes\<close> is a sequence of octets. Exceptions are values
  of \<open>error\<close>, and a call that may raise returns \<open>error + 'a\<close>.
\<close>

type_synonym codepoint = nat
type_synonym str = "codepoint list"
type_synonym byte = "8 word"
type_synonym bytes = "byte list"

datatype error =
    NotImplementedError
  | UnicodeEncodeError
  | UnicodeDecodeError
  | KeyError str
  | ValueError
  | BinasciiError
  | PdfError
  | IsADirectoryError
  | FileNotFoundError
  | PermissionError

text \<open>A source literal \<open>'abc'\<close> is written \<open>py ''abc''\<close>.\<close>

definition py :: "string \<Rightarrow> str" where
  "py cs = map of_char cs"

definition is_str :: "str \<Rightarrow> bool" where
  "is_str s = list_all (\<lambda>c. c \<le> 0x10FFFF) s"

definition is_surrogate :: "codepoint \<Rightarrow> bool" where
  "is_surrogate c = (0xD800 \<le> c \<and> c \<le> 0xDFFF)"

subsection \<open>Library calls of the encoders\<close>

text \<open>\<open>s.replace(old, new)\<close> for a one-character \<open>old\<close>.\<close>

definition str_replace :: "str \<Rightarrow> codepoint \<Rightarrow> str \<Rightarrow> str" where
  "str_replace s old new = concat (map (\<lambda>c. if c = old then new else [c]) s)"

text \<open>One UTF-16 code unit, big endian.\<close>

definition u16be :: "nat \<Rightarrow> bytes" where
  "u16be u = [of_nat (u div 256), of_nat (u mod 256)]"

text \<open>
  \<open>s.encode('utf-16be')\<close>, error handler \<open>strict\<close>: a code point of the basic
  plane is one unit, a higher one a surrogate pair, and a lone surrogate in the string
  raises \<open>UnicodeEncodeError\<close>.
\<close>

fun encode_utf_16be :: "str \<Rightarrow> error + bytes" where
  "encode_utf_16be [] = Inr []"
| "encode_utf_16be (c # cs) =
     (if is_surrogate c then Inl UnicodeEncodeError
      else case encode_utf_16be cs of
        Inl e \<Rightarrow> Inl e
      | Inr bs \<Rightarrow>
          Inr ((if c < 0x10000 then u16be c
                else u16be (0xD800 + (c - 0x10000) div 0x400) @
                     u16be (0xDC00 + (c - 0x10000) mod 0x400)) @ bs))"

text \<open>\<open>binascii.hexlify\<close>: two lowercase hexadecimal digits for each octet.\<close>

definition hexdigit :: "nat \<Rightarrow> byte" where
  "hexdigit d = (if d < 10 then of_nat (48 + d) else of_nat (87 + d))"

definition hexlify :: "bytes \<Rightarrow> bytes" where
  "hexlify bs = concat (map (\<lambda>b. [hexdigit (unat b div 16), hexdigit (unat b mod 16)]) bs)"

text \<open>\<open>b.decode('ascii')\<close> raises on an octet above \<open>0x7F\<close>.\<close>

definition decode_ascii :: "bytes \<Rightarrow> error + str" where
  "decode_ascii bs =
     (if list_all (\<lambda>b. unat b < 128) bs then Inr (map unat bs) else Inl UnicodeDecodeError)"

text \<open>
  \<open>s.lower()\<close> on the letters \<open>A .. Z\<close>. The source applies it to the result of
  \<open>decode('ascii')\<close> only, where no other code point has a lowercase form.
\<close>

definition lower :: "str \<Rightarrow> str" where
  "lower s = map (\<lambda>c. if 65 \<le> c \<and> c \<le> 90 then c + 32 else c) s"

text \<open>\<open>str.maketrans(dict)\<close> and \<open>s.translate(table)\<close>.\<close>

definition maketrans :: "(codepoint \<times> str) list \<Rightarrow> (codepoint \<rightharpoonup> str)" where
  "maketrans kvs = map_of kvs"

definition translate :: "str \<Rightarrow> (codepoint \<rightharpoonup> str) \<Rightarrow> str" where
  "translate s table = concat (map (\<lambda>c. case table c of None \<Rightarrow> [c] | Some r \<Rightarrow> r) s)"

text \<open>
  \<open>s.encode('ascii', errors='replace')\<close>: a code point above \<open>0x7F\<close> becomes
  a question mark.
\<close>

definition encode_ascii_replace :: "str \<Rightarrow> bytes" where
  "encode_ascii_replace s = map (\<lambda>c. if c < 128 then of_nat c else 63) s"

text \<open>
  \<open>b.decode()\<close>, that is UTF-8 with error handler \<open>strict\<close>: the shortest form
  only, no surrogates, nothing above \<open>0x10FFFF\<close>.
\<close>

definition cont :: "byte \<Rightarrow> nat \<Rightarrow> nat \<Rightarrow> bool" where
  "cont b lo hi = (lo \<le> unat b \<and> unat b \<le> hi)"

fun decode_utf_8 :: "bytes \<Rightarrow> error + str" where
  "decode_utf_8 [] = Inr []"
| "decode_utf_8 (b # bs) =
     (if unat b < 0x80 then
        (case decode_utf_8 bs of Inl e \<Rightarrow> Inl e | Inr s \<Rightarrow> Inr (unat b # s))
      else if 0xC2 \<le> unat b \<and> unat b \<le> 0xDF then
        (case bs of
           b1 # r \<Rightarrow>
             if cont b1 0x80 0xBF then
               (case decode_utf_8 r of
                  Inl e \<Rightarrow> Inl e
                | Inr s \<Rightarrow> Inr (((unat b - 0xC0) * 0x40 + (unat b1 - 0x80)) # s))
             else Inl UnicodeDecodeError
         | _ \<Rightarrow> Inl UnicodeDecodeError)
      else if 0xE0 \<le> unat b \<and> unat b \<le> 0xEF then
        (case bs of
           b1 # b2 # r \<Rightarrow>
             if cont b1 (if unat b = 0xE0 then 0xA0 else 0x80)
                        (if unat b = 0xED then 0x9F else 0xBF) \<and>
                cont b2 0x80 0xBF then
               (case decode_utf_8 r of
                  Inl e \<Rightarrow> Inl e
                | Inr s \<Rightarrow>
                    Inr (((unat b - 0xE0) * 0x1000 + (unat b1 - 0x80) * 0x40 +
                          (unat b2 - 0x80)) # s))
             else Inl UnicodeDecodeError
         | _ \<Rightarrow> Inl UnicodeDecodeError)
      else if 0xF0 \<le> unat b \<and> unat b \<le> 0xF4 then
        (case bs of
           b1 # b2 # b3 # r \<Rightarrow>
             if cont b1 (if unat b = 0xF0 then 0x90 else 0x80)
                        (if unat b = 0xF4 then 0x8F else 0xBF) \<and>
                cont b2 0x80 0xBF \<and> cont b3 0x80 0xBF then
               (case decode_utf_8 r of
                  Inl e \<Rightarrow> Inl e
                | Inr s \<Rightarrow>
                    Inr (((unat b - 0xF0) * 0x40000 + (unat b1 - 0x80) * 0x1000 +
                          (unat b2 - 0x80) * 0x40 + (unat b3 - 0x80)) # s))
             else Inl UnicodeDecodeError
         | _ \<Rightarrow> Inl UnicodeDecodeError)
      else Inl UnicodeDecodeError)"

section \<open>The text encoders\<close>

text \<open>
  \<open>encode_text_string\<close> (the \<open>@deprecated\<close> decorator only emits a warning and
  returns what the function returns).
\<close>

definition encode_text_string :: "str \<Rightarrow> error + str" where
  "encode_text_string s0 =
     (let s = str_replace s0 0 [] in
      if s = [] then Inr []
      else case encode_utf_16be s of
        Inl e \<Rightarrow> Inl e
      | Inr utf16_bytes \<Rightarrow>
          (case decode_ascii (hexlify ([0xFE, 0xFF] @ utf16_bytes)) of
             Inl e \<Rightarrow> Inl e
           | Inr ascii_hex_str \<Rightarrow> Inr (lower ascii_hex_str)))"

text \<open>
  \<open>_encode_ascii\<close> (an Isabelle name cannot begin with an underscore): the table
  deletes the two parentheses, the backslash and NUL.
\<close>

definition encode_ascii :: "str \<Rightarrow> error + str" where
  "encode_ascii s =
     (let trans = maketrans [(40, []), (41, []), (92, []), (0, [])]
      in decode_utf_8 (encode_ascii_replace (translate s trans)))"

section \<open>The pdfmark generator\<close>

subsection \<open>\<open>string.Template\<close>\<close>

text \<open>
  \<open>Template(t).substitute(**kws)\<close> scans for the dollar sign: \<open>$$\<close> is a
  dollar, \<open>$name\<close> and \<open>${name}\<close> are looked up (the name is the longest run
  of ASCII letters, digits and underscores, not starting with a digit), a missing name
  raises \<open>KeyError\<close>, and any other dollar raises \<open>ValueError\<close>. The leftmost
  failure is the one raised.
\<close>

definition id_start :: "codepoint \<Rightarrow> bool" where
  "id_start c = (c = 95 \<or> (97 \<le> c \<and> c \<le> 122) \<or> (65 \<le> c \<and> c \<le> 90))"

definition id_char :: "codepoint \<Rightarrow> bool" where
  "id_char c = (id_start c \<or> (48 \<le> c \<and> c \<le> 57))"

definition braced :: "str \<Rightarrow> bool" where
  "braced t =
     (case t of
        [] \<Rightarrow> False
      | d # _ \<Rightarrow>
          id_start d \<and> (case dropWhile id_char t of [] \<Rightarrow> False | c # _ \<Rightarrow> c = 125))"

function substitute :: "str \<Rightarrow> (str \<rightharpoonup> str) \<Rightarrow> error + str" where
  "substitute [] kws = Inr []"
| "substitute (c # t) kws =
     (if c \<noteq> 36 then
        (case substitute t kws of Inl e \<Rightarrow> Inl e | Inr r \<Rightarrow> Inr (c # r))
      else case t of
        [] \<Rightarrow> Inl ValueError
      | d # t' \<Rightarrow>
          if d = 36 then
            (case substitute t' kws of Inl e \<Rightarrow> Inl e | Inr r \<Rightarrow> Inr (36 # r))
          else if id_start d then
            (case kws (takeWhile id_char t) of
               None \<Rightarrow> Inl (KeyError (takeWhile id_char t))
             | Some v \<Rightarrow>
                 (case substitute (dropWhile id_char t) kws of
                    Inl e \<Rightarrow> Inl e
                  | Inr r \<Rightarrow> Inr (v @ r)))
          else if d = 123 \<and> braced t' then
            (case kws (takeWhile id_char t') of
               None \<Rightarrow> Inl (KeyError (takeWhile id_char t'))
             | Some v \<Rightarrow>
                 (case substitute (tl (dropWhile id_char t')) kws of
                    Inl e \<Rightarrow> Inl e
                  | Inr r \<Rightarrow> Inr (v @ r)))
          else Inl ValueError)"
  by pat_completeness auto
termination
proof (relation "measure (\<lambda>(t, kws). length t)")
  show "wf (measure (\<lambda>(t, kws). length t))"
    by simp
next
  fix c :: codepoint and t :: str and kws :: "str \<rightharpoonup> str"
  show "((t, kws), c # t, kws) \<in> measure (\<lambda>(t, kws). length t)"
    by simp
next
  fix c d :: codepoint and t t' :: str and kws :: "str \<rightharpoonup> str"
  assume "t = d # t'"
  then show "((t', kws), c # t, kws) \<in> measure (\<lambda>(t, kws). length t)"
    by simp
next
  fix c :: codepoint and t :: str and kws :: "str \<rightharpoonup> str"
  have "length (dropWhile id_char t) \<le> length t"
    by (rule length_dropWhile_le)
  then show "((dropWhile id_char t, kws), c # t, kws) \<in> measure (\<lambda>(t, kws). length t)"
    by simp
next
  fix c d :: codepoint and t t' :: str and kws :: "str \<rightharpoonup> str"
  assume "t = d # t'"
  moreover have "length (tl (dropWhile id_char t')) \<le> length t'"
    using length_dropWhile_le [of id_char t'] by simp
  ultimately show
    "((tl (dropWhile id_char t'), kws), c # t, kws) \<in> measure (\<lambda>(t, kws). length t)"
    by simp
qed

subsection \<open>The template and \<open>_get_pdfa_def\<close>\<close>

definition pdfa_def_template :: str where
  "pdfa_def_template = py (
       ''%!\<newline>'' @
       ''% Define entries in the document Info dictionary :\<newline>'' @
       ''/ICCProfile $icc_profile\<newline>'' @
       ''def\<newline>'' @
       ''\<newline>'' @
       ''% Define an ICC profile :\<newline>'' @
       ''\<newline>'' @
       ''[/_objdef {icc_PDFA} /type /stream /OBJ pdfmark\<newline>'' @
       ''[{icc_PDFA}\<newline>'' @
       ''<<\<newline>'' @
       ''  /N currentpagedevice /ProcessColorModel known {\<newline>'' @
       ''    currentpagedevice /ProcessColorModel get dup /DeviceGray eq\<newline>'' @
       ''    {pop 1} {\<newline>'' @
       ''      /DeviceRGB eq\<newline>'' @
       ''      {3}{4} ifelse\<newline>'' @
       ''    } ifelse\<newline>'' @
       ''  } {\<newline>'' @
       ''    (ERROR, unable to determine ProcessColorModel) == flush\<newline>'' @
       ''  } ifelse\<newline>'' @
       ''>> /PUT pdfmark\<newline>'' @
       ''[{icc_PDFA} ICCProfile (r) file /PUT pdfmark\<newline>'' @
       ''\<newline>'' @
       ''% Define the output intent dictionary :\<newline>'' @
       ''\<newline>'' @
       ''[/_objdef {OutputIntent_PDFA} /type /dict /OBJ pdfmark\<newline>'' @
       ''[{OutputIntent_PDFA} <<\<newline>'' @
       ''  /Type /OutputIntent             % Must be so (the standard requires).\<newline>'' @
       ''  /S /GTS_PDFA1                   % Must be so (the standard requires).\<newline>'' @
       ''  /DestOutputProfile {icc_PDFA}            % Must be so (see above).\<newline>'' @
       ''  /OutputConditionIdentifier ($icc_identifier)\<newline>'' @
       ''>> /PUT pdfmark\<newline>'' @
       ''[{Catalog} <</OutputIntents [ {OutputIntent_PDFA} ]>> /PUT pdfmark\<newline>'')"

text \<open>
  The parameters \<open>pdfmark\<close> and \<open>ascii_docinfo\<close> default to \<open>None\<close>; their
  values may be of any type.
\<close>

definition get_pdfa_def :: "str \<Rightarrow> str \<Rightarrow> 'p option \<Rightarrow> 'd option \<Rightarrow> error + str" where
  "get_pdfa_def icc_profile icc_identifier pdfmark ascii_docinfo =
     substitute pdfa_def_template
       [py ''icc_profile'' \<mapsto> icc_profile, py ''icc_identifier'' \<mapsto> icc_identifier]"

subsection \<open>The filesystem and the installation\<close>

text \<open>
  The filesystem maps a path to the content of the file there; a path stands for the
  file it names, and two spellings of one file are not identified.
\<close>

type_synonym filesystem = "str \<rightharpoonup> bytes"

text \<open>
  \<open>SRGB_ICC_PROFILE\<close> is what \<open>pkg_resources.resource_filename\<close> returned when the
  module was loaded, and \<open>os.fsencode\<close> depends on the filesystem encoding of the
  platform. \<open>os_open\<close> is the answer of the operating system when a path is opened
  for writing: an error (\<open>IsADirectoryError\<close>, \<open>FileNotFoundError\<close>,
  \<open>PermissionError\<close>), or nothing when the file opens. All three are given by the
  installation.
\<close>

record installation =
  SRGB_ICC_PROFILE :: str
  fsencode :: "str \<Rightarrow> error + bytes"
  os_open :: "filesystem \<Rightarrow> str \<Rightarrow> error option"

text \<open>
  \<open>os.fsencode\<close> where the filesystem encoding is UTF-8, as on Linux and macOS: the
  error handler is \<open>surrogateescape\<close>, so the code points \<open>U+DC80 .. U+DCFF\<close>
  stand for the octets \<open>0x80 .. 0xFF\<close> and every other surrogate raises.
\<close>

fun fsencode_utf8 :: "str \<Rightarrow> error + bytes" where
  "fsencode_utf8 [] = Inr []"
| "fsencode_utf8 (c # cs) =
     (if is_surrogate c \<and> \<not> (0xDC80 \<le> c \<and> c \<le> 0xDCFF) then Inl UnicodeEncodeError
      else case fsencode_utf8 cs of
        Inl e \<Rightarrow> Inl e
      | Inr bs \<Rightarrow>
          Inr ((if c < 0x80 then [of_nat c]
                else if c < 0x800 then [of_nat (0xC0 + c div 0x40), of_nat (0x80 + c mod 0x40)]
                else if is_surrogate c then [of_nat (c - 0xDC00)]
                else if c < 0x10000 then
                  [of_nat (0xE0 + c div 0x1000), of_nat (0x80 + c div 0x40 mod 0x40),
                   of_nat (0x80 + c mod 0x40)]
                else
                  [of_nat (0xF0 + c div 0x40000), of_nat (0x80 + c div 0x1000 mod 0x40),
                   of_nat (0x80 + c div 0x40 mod 0x40), of_nat (0x80 + c mod 0x40)]) @ bs))"

text \<open>
  An installation under \<open>/usr/lib/python3/dist-packages\<close> on such a system, run by
  a user who may write files directly in \<open>/tmp\<close> and nowhere else. The empty path is
  the current directory.
\<close>

definition tmp_file :: "str \<Rightarrow> bool" where
  "tmp_file p =
     (prefix (py ''/tmp/'') p \<and> drop 5 p \<noteq> [] \<and> 47 \<notin> set (drop 5 p))"

definition posix_installation :: installation where
  "posix_installation =
     \<lparr>SRGB_ICC_PROFILE = py ''/usr/lib/python3/dist-packages/ocrmypdf/data/sRGB.icc'',
      fsencode = fsencode_utf8,
      os_open = (\<lambda>fs p. if p = [] then Some IsADirectoryError
                         else if tmp_file p then None
                         else Some PermissionError)\<rparr>"

text \<open>\<open>s.encode('ascii')\<close>, error handler \<open>strict\<close>.\<close>

definition encode_ascii_strict :: "str \<Rightarrow> error + bytes" where
  "encode_ascii_strict s =
     (if list_all (\<lambda>c. c < 128) s then Inr (map of_nat s) else Inl UnicodeEncodeError)"

text \<open>
  \<open>Path(p).open(mode='w')\<close>: the path is encoded for the operating system, which
  raises \<open>UnicodeEncodeError\<close> when it cannot be encoded and \<open>ValueError\<close> when
  it holds a NUL; then the operating system opens the file or refuses. A file that
  opens is created, or truncated if it was there. A failed open leaves the filesystem
  as it was.
\<close>

definition open_w :: "installation \<Rightarrow> str \<Rightarrow> filesystem \<Rightarrow> error + filesystem" where
  "open_w inst p fs =
     (case fsencode inst p of
        Inl e \<Rightarrow> Inl e
      | Inr bp \<Rightarrow>
          if 0 \<in> set bp then Inl ValueError
          else (case os_open inst fs p of
                  Some e \<Rightarrow> Inl e
                | None \<Rightarrow> Inr (fs(p \<mapsto> []))))"

text \<open>
  \<open>Path(p).write_text(data, encoding='ascii')\<close> opens the file and writes the
  encoded text (line ends are kept as they are, as on POSIX). When the text cannot be
  encoded the exception leaves the empty file.
\<close>

definition write_text ::
  "installation \<Rightarrow> str \<Rightarrow> str \<Rightarrow> filesystem \<Rightarrow> (error + unit) \<times> filesystem" where
  "write_text inst p data fs =
     (case open_w inst p fs of
        Inl e \<Rightarrow> (Inl e, fs)
      | Inr fs0 \<Rightarrow>
          (case encode_ascii_strict data of
             Inl e \<Rightarrow> (Inl e, fs0)
           | Inr bs \<Rightarrow> (Inr (), fs0(p \<mapsto> bs))))"

subsection \<open>\<open>generate_pdfa_ps\<close>\<close>

definition generate_pdfa_ps ::
  "installation \<Rightarrow> str \<Rightarrow> 'p option \<Rightarrow> str \<Rightarrow> 'd option \<Rightarrow> filesystem \<Rightarrow>
   (error + unit) \<times> filesystem" where
  "generate_pdfa_ps inst target_filename pdfmark icc ascii_docinfo fs =
     (if icc = py ''sRGB'' then
        (case fsencode inst (SRGB_ICC_PROFILE inst) of
           Inl e \<Rightarrow> (Inl e, fs)
         | Inr bytes_icc_profile \<Rightarrow>
             (case decode_ascii (hexlify bytes_icc_profile) of
                Inl e \<Rightarrow> (Inl e, fs)
              | Inr hex_icc_profile \<Rightarrow>
                  (case get_pdfa_def (py ''<'' @ hex_icc_profile @ py ''>'') icc pdfmark
                          (None :: unit option) of
                     Inl e \<Rightarrow> (Inl e, fs)
                   | Inr ps \<Rightarrow> write_text inst target_filename ps fs)))
      else (Inl NotImplementedError, fs))"

section \<open>The PDF/A claim checker\<close>

text \<open>
  \<open>pikepdf.open(filename).open_metadata()\<close> either raises or gives the metadata of
  the file, of which the checker reads \<open>pdfa_status\<close>: a string, or nothing.
  A result dictionary holds booleans and strings under string keys.
\<close>

record pdfmeta =
  pdfa_status :: "str option"

type_synonym pikepdf = "str \<Rightarrow> error + pdfmeta"

datatype pyval = Bool bool | Str str

type_synonym pydict = "str \<rightharpoonup> pyval"

text \<open>Python's truth value of the status, and \<open>'{}'.format\<close> of it.\<close>

definition truthy :: "str option \<Rightarrow> bool" where
  "truthy v = (case v of None \<Rightarrow> False | Some s \<Rightarrow> s \<noteq> [])"

definition format_str :: "str option \<Rightarrow> str" where
  "format_str v = (case v of None \<Rightarrow> py ''None'' | Some s \<Rightarrow> s)"

definition file_claims_pdfa :: "pikepdf \<Rightarrow> str \<Rightarrow> error + pydict" where
  "file_claims_pdfa pikepdf_open filename =
     (case pikepdf_open filename of
        Inl e \<Rightarrow> Inl e
      | Inr meta \<Rightarrow>
          if \<not> truthy (pdfa_status meta) then
            Inr [py ''pass'' \<mapsto> Bool False,
                 py ''output'' \<mapsto> Str (py ''pdf''),
                 py ''conformance'' \<mapsto> Str (py ''No PDF/A metadata in XMP'')]
          else
            let valid_part_conforms =
                  set (map py [''1A'', ''1B'', ''2A'', ''2B'', ''2U'', ''3A'', ''3B'', ''3U'']);
                conformance = py ''PDF/A-'' @ format_str (pdfa_status meta);
                pdfa_dict = Map.empty;
                pdfa_dict =
                  (if pdfa_status meta \<in> Some ` valid_part_conforms
                   then pdfa_dict(py ''pass'' \<mapsto> Bool True, py ''output'' \<mapsto> Str (py ''pdfa''))
                   else pdfa_dict)
            in Inr (pdfa_dict(py ''conformance'' \<mapsto> Str conformance)))"

section \<open>The inverse operations the properties name\<close>

text \<open>
  The properties of the encoders are stated with the decoding side of the same library
  calls: \<open>binascii.unhexlify\<close> and \<open>bytes.decode('utf-16-be')\<close> (a lone or
  unpaired surrogate unit and a trailing odd octet raise \<open>UnicodeDecodeError\<close>).
\<close>

definition hexval :: "codepoint \<Rightarrow> nat option" where
  "hexval c =
     (if 48 \<le> c \<and> c \<le> 57 then Some (c - 48)
      else if 97 \<le> c \<and> c \<le> 102 then Some (c - 87)
      else if 65 \<le> c \<and> c \<le> 70 then Some (c - 55)
      else None)"

fun unhex :: "str \<Rightarrow> error + bytes" where
  "unhex [] = Inr []"
| "unhex [c] = Inl BinasciiError"
| "unhex (a # b # cs) =
     (case (hexval a, hexval b) of
        (Some h, Some l) \<Rightarrow>
          (case unhex cs of
             Inl e \<Rightarrow> Inl e
           | Inr bs \<Rightarrow> Inr (of_nat (16 * h + l) # bs))
      | _ \<Rightarrow> Inl BinasciiError)"

text \<open>
  \<open>unhexlify\<close> of a string: a string with a character outside ASCII is a
  \<open>ValueError\<close>, an odd length or a character that is no hexadecimal digit is
  \<open>binascii.Error\<close>.
\<close>

definition unhexlify :: "str \<Rightarrow> error + bytes" where
  "unhexlify s = (if list_all (\<lambda>c. c < 128) s then unhex s else Inl ValueError)"

definition unit16 :: "byte \<Rightarrow> byte \<Rightarrow> nat" where
  "unit16 hi lo = unat hi * 256 + unat lo"

fun decode_utf_16be :: "bytes \<Rightarrow> error + str" where
  "decode_utf_16be [] = Inr []"
| "decode_utf_16be [b] = Inl UnicodeDecodeError"
| "decode_utf_16be (b1 # b2 # bs) =
     (if 0xD800 \<le> unit16 b1 b2 \<and> unit16 b1 b2 \<le> 0xDBFF then
        (case bs of
           b3 # b4 # r \<Rightarrow>
             if 0xDC00 \<le> unit16 b3 b4 \<and> unit16 b3 b4 \<le> 0xDFFF then
               (case decode_utf_16be r of
                  Inl e \<Rightarrow> Inl e
                | Inr s \<Rightarrow>
                    Inr ((0x10000 + (unit16 b1 b2 - 0xD800) * 0x400 +
                          (unit16 b3 b4 - 0xDC00)) # s))
             else Inl UnicodeDecodeError
         | _ \<Rightarrow> Inl UnicodeDecodeError)
      else if 0xDC00 \<le> unit16 b1 b2 \<and> unit16 b1 b2 \<le> 0xDFFF then Inl UnicodeDecodeError
      else (case decode_utf_16be bs of
              Inl e \<Rightarrow> Inl e
            | Inr s \<Rightarrow> Inr (unit16 b1 b2 # s)))"

text \<open>
  Reading back what \<open>encode_text_string\<close> wrote: hex-decode, drop the two octets
  of the byte-order mark, decode the rest as big-endian UTF-16.
\<close>

definition decode_text_string :: "str \<Rightarrow> error + str" where
  "decode_text_string h =
     (case unhexlify h of Inl e \<Rightarrow> Inl e | Inr bs \<Rightarrow> decode_utf_16be (drop 2 bs))"

text \<open>The printable ASCII range is \<open>0x20 .. 0x7E\<close>.\<close>

definition printable_ascii :: "codepoint \<Rightarrow> bool" where
  "printable_ascii c = (32 \<le> c \<and> c \<le> 126)"




text \<open>
  The three pieces of literal text of the template, around its two placeholders.
\<close>

definition template_head :: str where
  "template_head = py (
       ''%!\<newline>'' @
       ''% Define entries in the document Info dictionary :\<newline>'' @
       ''/ICCProfile '')"

definition template_body :: str where
  "template_body = py (
       ''\<newline>'' @
       ''def\<newline>'' @
       ''\<newline>'' @
       ''% Define an ICC profile :\<newline>'' @
       ''\<newline>'' @
       ''[/_objdef {icc_PDFA} /type /stream /OBJ pdfmark\<newline>'' @
       ''[{icc_PDFA}\<newline>'' @
       ''<<\<newline>'' @
       ''  /N currentpagedevice /ProcessColorModel known {\<newline>'' @
       ''    currentpagedevice /ProcessColorModel get dup /DeviceGray eq\<newline>'' @
       ''    {pop 1} {\<newline>'' @
       ''      /DeviceRGB eq\<newline>'' @
       ''      {3}{4} ifelse\<newline>'' @
       ''    } ifelse\<newline>'' @
       ''  } {\<newline>'' @
       ''    (ERROR, unable to determine ProcessColorModel) == flush\<newline>'' @
       ''  } ifelse\<newline>'' @
       ''>> /PUT pdfmark\<newline>'' @
       ''[{icc_PDFA} ICCProfile (r) file /PUT pdfmark\<newline>'' @
       ''\<newline>'' @
       ''% Define the output intent dictionary :\<newline>'' @
       ''\<newline>'' @
       ''[/_objdef {OutputIntent_PDFA} /type /dict /OBJ pdfmark\<newline>'' @
       ''[{OutputIntent_PDFA} <<\<newline>'' @
       ''  /Type /OutputIntent             % Must be so (the standard requires).\<newline>'' @
       ''  /S /GTS_PDFA1                   % Must be so (the standard requires).\<newline>'' @
       ''  /DestOutputProfile {icc_PDFA}            % Must be so (see above).\<newline>'' @
       ''  /OutputConditionIdentifier ('')"

definition template_tail :: str where
  "template_tail = py (
       '')\<newline>'' @
       ''>> /PUT pdfmark\<newline>'' @
       ''[{Catalog} <</OutputIntents [ {OutputIntent_PDFA} ]>> /PUT pdfmark\<newline>'')"

text \<open>
  The pdfmark text for the identifier \<open>sRGB\<close> and a profile path of octets \<open>p\<close>.
\<close>

definition pdfmark_text :: "bytes \<Rightarrow> str" where
  "pdfmark_text p =
     template_head @ (py ''<'' @ map unat (hexlify p) @ py ''>'') @ template_body @
     py ''sRGB'' @ template_tail"

text \<open>
  The conformance values the specification lists: \<open>PDF/A-\<close> and one of the codes, or
  the fixed message.
\<close>

definition listed_conformance :: "str \<Rightarrow> bool" where
  "listed_conformance c =
     (c \<in> set (map (\<lambda>code. py ''PDF/A-'' @ py code)
                  [''1A'', ''1B'', ''2A'', ''2B'', ''2U'', ''3A'', ''3B'', ''3U''])
      \<or> c = py ''No PDF/A metadata in XMP'')"

section \<open>Properties of the text encoders\<close>

lemma str_replace_NUL: "str_replace s 0 [] = removeAll 0 s"
  by (induction s) (simp_all add: str_replace_def)

lemma hexdigit_unat: "d < 16 \<Longrightarrow> unat (hexdigit d) = (if d < 10 then 48 + d else 87 + d)"
  by (simp add: hexdigit_def unat_of_nat del: of_nat_add)

lemma hexval_hexdigit: "d < 16 \<Longrightarrow> hexval (unat (hexdigit d)) = Some d"
  by (simp add: hexdigit_unat hexval_def)

lemma byte_nibbles: "(of_nat (16 * (unat b div 16) + unat b mod 16) :: byte) = b"
  by (simp del: of_nat_add of_nat_mult)

lemma unat_byte_div16: "unat (b :: byte) div 16 < 16"
  using unsigned_less [of b, where 'a = nat] by simp

lemma unhex_hexlify: "unhex (map unat (hexlify bs)) = Inr bs"
  by (induction bs)
    (simp_all add: hexlify_def hexval_hexdigit unat_byte_div16 byte_nibbles
      del: of_nat_add of_nat_mult)

lemma hexdigit_ascii: "d < 16 \<Longrightarrow> unat (hexdigit d) < 128"
  by (simp add: hexdigit_unat)

lemma hexlify_ascii: "list_all (\<lambda>b. unat b < 128) (hexlify bs)"
  by (induction bs) (simp_all add: hexlify_def hexdigit_ascii unat_byte_div16)

lemma hexlify_ascii_str: "list_all (\<lambda>c. c < 128) (map unat (hexlify bs))"
  using hexlify_ascii [of bs] by (simp add: list_all_iff)

lemma unhexlify_hexlify: "unhexlify (map unat (hexlify bs)) = Inr bs"
  by (simp add: unhexlify_def hexlify_ascii_str unhex_hexlify)

lemma hexdigit_lower: "d < 16 \<Longrightarrow> \<not> (65 \<le> unat (hexdigit d) \<and> unat (hexdigit d) \<le> 90)"
  by (simp add: hexdigit_unat)

lemma hexlify_lower: "lower (map unat (hexlify bs)) = map unat (hexlify bs)"
  by (induction bs) (simp_all add: hexlify_def lower_def hexdigit_lower unat_byte_div16)

lemma decode_ascii_hexlify: "decode_ascii (hexlify bs) = Inr (map unat (hexlify bs))"
  by (simp add: decode_ascii_def hexlify_ascii)

lemma unit16_of_nat:
  "u < 0x10000 \<Longrightarrow> unit16 (of_nat (u div 256)) (of_nat (u mod 256)) = u"
  by (simp add: unit16_def unat_of_nat)

lemma decode_utf_16be_bmp:
  assumes "c < 0x10000" "\<not> is_surrogate c"
  shows "decode_utf_16be (u16be c @ bs) =
    (case decode_utf_16be bs of Inl e \<Rightarrow> Inl e | Inr s \<Rightarrow> Inr (c # s))"
  using assms by (auto simp: u16be_def unit16_of_nat is_surrogate_def split: sum.split)

lemma decode_utf_16be_pair:
  assumes "0x10000 \<le> c" "c \<le> 0x10FFFF"
  shows "decode_utf_16be (u16be (0xD800 + (c - 0x10000) div 0x400) @
           u16be (0xDC00 + (c - 0x10000) mod 0x400) @ bs) =
    (case decode_utf_16be bs of Inl e \<Rightarrow> Inl e | Inr s \<Rightarrow> Inr (c # s))"
proof -
  define d where "d = c - 0x10000"
  have d: "d < 0x100000" "c = 0x10000 + d" using assms by (simp_all add: d_def)
  have hi: "0xD800 + d div 0x400 < 0x10000" "0xD800 \<le> 0xD800 + d div 0x400"
    "0xD800 + d div 0x400 \<le> 0xDBFF" using d(1) by simp_all
  have lo: "0xDC00 + d mod 0x400 < 0x10000" "0xDC00 \<le> 0xDC00 + d mod 0x400"
    "0xDC00 + d mod 0x400 \<le> 0xDFFF" by simp_all
  have comb: "0x10000 + (0xD800 + d div 0x400 - 0xD800) * 0x400 + (0xDC00 + d mod 0x400 - 0xDC00) = c"
    using d(2) by simp
  show ?thesis
    unfolding d_def [symmetric] u16be_def
    using hi lo comb by (simp add: unit16_of_nat split: sum.split)
qed

lemma decode_encode_utf_16be:
  "is_str s \<Longrightarrow> \<not> list_ex is_surrogate s \<Longrightarrow>
   \<exists>bs. encode_utf_16be s = Inr bs \<and> decode_utf_16be bs = Inr s"
proof (induction s)
  case Nil
  then show ?case by simp
next
  case (Cons c s)
  then obtain bs where bs: "encode_utf_16be s = Inr bs" "decode_utf_16be bs = Inr s"
    by (auto simp: is_str_def)
  from Cons.prems have c: "c \<le> 0x10FFFF" "\<not> is_surrogate c"
    by (simp_all add: is_str_def)
  show ?case
  proof (cases "c < 0x10000")
    case True
    then show ?thesis using bs c by (simp add: decode_utf_16be_bmp)
  next
    case False
    then show ?thesis using bs c by (simp add: decode_utf_16be_pair)
  qed
qed

lemma encode_utf_16be_surrogate:
  "list_ex is_surrogate s \<Longrightarrow> encode_utf_16be s = Inl UnicodeEncodeError"
  by (induction s) (auto split: sum.splits)

lemma removeAll_NUL_empty: "removeAll (0::nat) s = [] \<longleftrightarrow> list_all (\<lambda>c. c = 0) s"
  by (induction s) simp_all

lemma is_str_removeAll: "is_str s \<Longrightarrow> is_str (removeAll c s)"
  by (induction s) (auto simp: is_str_def)

lemma surrogate_removeAll_NUL:
  "list_ex is_surrogate (removeAll 0 s) = list_ex is_surrogate s"
  by (induction s) (auto simp: is_surrogate_def)

lemma py_feff: "py ''feff'' = [102, 101, 102, 102]"
  by (simp add: py_def)

lemma hexlify_BOM: "map unat (hexlify (0xFE # 0xFF # bs)) = py ''feff'' @ map unat (hexlify bs)"
  by (simp add: hexlify_def hexdigit_def py_feff)

lemma encode_text_string_eq:
  "encode_text_string s =
     (if list_all (\<lambda>c. c = 0) s then Inr []
      else case encode_utf_16be (removeAll 0 s) of
        Inl e \<Rightarrow> Inl e
      | Inr bs \<Rightarrow> Inr (py ''feff'' @ map unat (hexlify bs)))"
  by (simp add: encode_text_string_def str_replace_NUL removeAll_NUL_empty Let_def
      decode_ascii_hexlify hexlify_lower hexlify_BOM [symmetric] split: sum.split)

text \<open>
  Claim C7 (as amended). For every string \<open>s\<close> that holds no surrogate code point,
  \<open>encode_text_string\<close> returns, and hex-decoding what it returns, dropping the two
  octets of the byte-order mark and decoding the rest as big-endian UTF-16 gives
  \<open>s\<close> without its NUL characters.
\<close>

theorem encode_text_string_roundtrip:
  assumes "is_str s" and "\<not> list_ex is_surrogate s"
  shows "\<exists>h. encode_text_string s = Inr h \<and>
             decode_text_string h = Inr (removeAll 0 s)"
proof (cases "list_all (\<lambda>c. c = 0) s")
  case True
  then have "removeAll 0 s = []"
    by (simp add: removeAll_NUL_empty)
  with True show ?thesis
    by (simp add: encode_text_string_eq decode_text_string_def unhexlify_def)
next
  case False
  let ?t = "removeAll 0 s"
  from assms have "is_str ?t" "\<not> list_ex is_surrogate ?t"
    by (simp_all add: is_str_removeAll surrogate_removeAll_NUL)
  then obtain bs where bs: "encode_utf_16be ?t = Inr bs" "decode_utf_16be bs = Inr ?t"
    using decode_encode_utf_16be by blast
  have "unhexlify (py ''feff'' @ map unat (hexlify bs)) = Inr (0xFE # 0xFF # bs)"
    using unhexlify_hexlify [of "0xFE # 0xFF # bs"] by (simp only: hexlify_BOM)
  with False bs show ?thesis
    by (simp add: encode_text_string_eq decode_text_string_def)
qed

text \<open>
  The property fails for "every input string": a string that holds a lone surrogate is a
  Python string, and the strict UTF-16 encoder raises on it, so there is no output to
  decode.
\<close>

theorem encode_text_string_surrogate_raises:
  "is_str [0xD800] \<and> encode_text_string [0xD800] = Inl UnicodeEncodeError"
  by (simp add: is_str_def encode_text_string_eq is_surrogate_def)

text \<open>
  The round trip at a string with a character outside the basic plane and a NUL.
\<close>

theorem encode_text_string_roundtrip_witness:
  "is_str [0x1F600, 0, 65] \<and> \<not> list_ex is_surrogate [0x1F600, 0, 65] \<and>
   (\<exists>h. encode_text_string [0x1F600, 0, 65] = Inr h \<and> decode_text_string h = Inr [0x1F600, 65])"
  using encode_text_string_roundtrip [of "[0x1F600, 0, 65]"]
  by (simp add: is_str_def is_surrogate_def)

text \<open>
  Claim C10 (as amended). A string that is empty or holds NUL characters only is
  encoded as the empty string, with no byte-order mark. Every other string without a
  surrogate code point is encoded as a string that begins with the mark \<open>feff\<close>; one
  with a surrogate code point raises \<open>UnicodeEncodeError\<close>.
\<close>

theorem encode_text_string_empty_edge:
  "(if list_all (\<lambda>c. c = 0) s then encode_text_string s = Inr []
    else if list_ex is_surrogate s then encode_text_string s = Inl UnicodeEncodeError
    else \<exists>rest. encode_text_string s = Inr (py ''feff'' @ rest))"
proof -
  let ?t = "removeAll 0 s"
  have "encode_utf_16be ?t = Inl UnicodeEncodeError" if "list_ex is_surrogate s"
    using that by (simp add: encode_utf_16be_surrogate surrogate_removeAll_NUL)
  moreover have "\<exists>bs. encode_utf_16be ?t = Inr bs" if "\<not> list_ex is_surrogate s"
    using that by (induction s) (auto simp: split: sum.splits)
  ultimately show ?thesis
    by (auto simp: encode_text_string_eq)
qed

text \<open>
  Not every other input has a BOM-prefixed output: the string of \<open>U+0041\<close> and
  \<open>U+DC80\<close>, which \<open>os.fsdecode\<close> returns for the octets \<open>0x41 0x80\<close>, is not
  made of NULs and has no output at all.
\<close>

theorem encode_text_string_escaped_byte_raises:
  "\<not> list_all (\<lambda>c. c = 0) [65::nat, 0xDC80] \<and> is_str [65, 0xDC80] \<and>
   encode_text_string [65, 0xDC80] = Inl UnicodeEncodeError"
  by (simp add: is_str_def encode_text_string_eq is_surrogate_def)

lemma translate_deletes:
  "translate s (maketrans [(40, []), (41, []), (92, []), (0, [])]) =
     filter (\<lambda>c. c \<notin> {40, 41, 92, 0}) s"
  by (induction s) (simp_all add: translate_def maketrans_def)

lemma decode_utf_8_ascii:
  "list_all (\<lambda>b. unat b < 128) bs \<Longrightarrow> decode_utf_8 bs = Inr (map unat bs)"
  by (induction bs) simp_all

lemma encode_ascii_replace_ascii: "list_all (\<lambda>b. unat b < 128) (encode_ascii_replace s)"
  by (induction s) (simp_all add: encode_ascii_replace_def unat_of_nat)

lemma unat_encode_ascii_replace:
  "map unat (encode_ascii_replace s) = map (\<lambda>c. if c < 128 then c else 63) s"
  by (induction s) (simp_all add: encode_ascii_replace_def unat_of_nat)

lemma encode_ascii_eq:
  "encode_ascii s =
     Inr (map (\<lambda>c. if c < 128 then c else 63) (filter (\<lambda>c. c \<notin> {40, 41, 92, 0}) s))"
  by (simp add: encode_ascii_def translate_deletes decode_utf_8_ascii
      encode_ascii_replace_ascii unat_encode_ascii_replace)

text \<open>
  Claim C8 (as amended). For every input string \<open>_encode_ascii\<close> returns a string whose
  characters all lie in the ASCII range without NUL (\<open>0x01 .. 0x7F\<close>), none of them
  a parenthesis or a backslash.
\<close>

theorem encode_ascii_output:
  "\<exists>t. encode_ascii s = Inr t \<and>
        list_all (\<lambda>c. 1 \<le> c \<and> c \<le> 127 \<and> c \<noteq> 40 \<and> c \<noteq> 41 \<and> c \<noteq> 92) t"
proof -
  let ?kept = "filter (\<lambda>c. c \<notin> {40, 41, 92, 0}) s"
  let ?t = "map (\<lambda>c. if c < 128 then c else 63) ?kept"
  have "encode_ascii s = Inr ?t"
    by (rule encode_ascii_eq)
  moreover have
    "list_all (\<lambda>c. 1 \<le> c \<and> c \<le> 127 \<and> c \<noteq> 40 \<and> c \<noteq> 41 \<and> c \<noteq> 92) ?t"
    by (induction s) auto
  ultimately show ?thesis
    by blast
qed

text \<open>
  The output is not confined to the printable range: a line feed passes through
  unchanged, as every control character but NUL does.
\<close>

theorem encode_ascii_keeps_newline:
  "encode_ascii [10] = Inr [10] \<and> \<not> printable_ascii 10"
  by (simp add: encode_ascii_eq printable_ascii_def)

section \<open>Properties of the pdfmark generator\<close>

lemma template_split:
  "pdfa_def_template =
     template_head @ (36 # py ''icc_profile'') @ template_body @
     (36 # py ''icc_identifier'') @ template_tail"
  by (simp add: pdfa_def_template_def template_head_def template_body_def template_tail_def py_def)

lemma template_head_literal: "36 \<notin> set template_head"
  by (simp add: template_head_def py_def)

lemma template_body_literal: "36 \<notin> set template_body"
  by (simp add: template_body_def py_def)

lemma template_tail_literal: "36 \<notin> set template_tail"
  by (simp add: template_tail_def py_def)


lemma substitute_literal:
  "36 \<notin> set l \<Longrightarrow>
   substitute (l @ t) kws = (case substitute t kws of Inl e \<Rightarrow> Inl e | Inr r \<Rightarrow> Inr (l @ r))"
  by (induction l) (auto split: sum.splits)

lemma substitute_named:
  assumes "id_start d" "list_all id_char n" "t \<noteq> []" "\<not> id_char (hd t)" "kws (d # n) = Some v"
  shows "substitute (36 # d # n @ t) kws =
    (case substitute t kws of Inl e \<Rightarrow> Inl e | Inr r \<Rightarrow> Inr (v @ r))"
proof -
  obtain c t' where t: "t = c # t'" "\<not> id_char c"
    using assms(3,4) by (cases t) auto
  have all: "\<forall>x \<in> set (d # n). id_char x"
    using assms(1,2) by (simp add: id_char_def list_all_iff)
  have "takeWhile id_char ((d # n) @ c # t') = (d # n) @ takeWhile id_char (c # t')"
    by (rule takeWhile_append2) (use all in blast)
  then have tw: "takeWhile id_char ((d # n) @ c # t') = d # n"
    using t(2) by simp
  have "dropWhile id_char ((d # n) @ c # t') = dropWhile id_char (c # t')"
    by (rule dropWhile_append2) (use all in blast)
  then have dw: "dropWhile id_char ((d # n) @ c # t') = c # t'"
    using t(2) by simp
  have "d \<noteq> 36" using assms(1) by (auto simp: id_start_def)
  then show ?thesis
    using assms(1,5) tw dw t(1) by simp
qed

lemma py_names:
  "py ''icc_profile'' = 105 # py ''cc_profile''"
  "py ''icc_identifier'' = 105 # py ''cc_identifier''"
  "id_start 105"
  "list_all id_char (py ''cc_profile'')"
  "list_all id_char (py ''cc_identifier'')"
  by (simp_all add: py_def id_start_def id_char_def)

lemma template_after_names:
  "template_body \<noteq> []" "\<not> id_char (hd template_body)"
  "template_tail \<noteq> []" "\<not> id_char (hd template_tail)"
  by (simp_all add: template_body_def template_tail_def py_def id_start_def id_char_def)

lemma names_distinct: "py ''icc_profile'' \<noteq> py ''icc_identifier''"
  by (simp add: py_def)

lemma get_pdfa_def_eq:
  "get_pdfa_def icc_profile icc_identifier pdfmark ascii_docinfo =
     Inr (template_head @ icc_profile @ template_body @ icc_identifier @ template_tail)"
proof -
  let ?kws = "[py ''icc_profile'' \<mapsto> icc_profile, py ''icc_identifier'' \<mapsto> icc_identifier]"
  have k1: "?kws (105 # py ''cc_profile'') = Some icc_profile"
    using names_distinct by (simp add: py_names(1,2) [symmetric])
  have k2: "?kws (105 # py ''cc_identifier'') = Some icc_identifier"
    by (simp add: py_names(1,2) [symmetric])
  have tail: "substitute template_tail ?kws = Inr template_tail"
    using substitute_literal [OF template_tail_literal, of "[]" ?kws] by simp
  have "substitute (36 # 105 # py ''cc_identifier'' @ template_tail) ?kws =
      (case substitute template_tail ?kws of Inl e \<Rightarrow> Inl e
       | Inr r \<Rightarrow> Inr (icc_identifier @ r))"
    by (rule substitute_named [OF py_names(3) py_names(5) template_after_names(3,4)])
      (rule k2)
  then have s2: "substitute (36 # 105 # py ''cc_identifier'' @ template_tail) ?kws =
      Inr (icc_identifier @ template_tail)"
    by (simp only: tail sum.case)
  let ?rest = "template_body @ 36 # 105 # py ''cc_identifier'' @ template_tail"
  have s3: "substitute ?rest ?kws = Inr (template_body @ icc_identifier @ template_tail)"
    by (simp only: substitute_literal [OF template_body_literal] s2 sum.case)
  have ne: "?rest \<noteq> []"
    using template_after_names(1) by simp
  have hd: "\<not> id_char (hd ?rest)"
    using template_after_names(1,2) by simp
  have "substitute (36 # 105 # py ''cc_profile'' @ ?rest) ?kws =
      (case substitute ?rest ?kws of Inl e \<Rightarrow> Inl e | Inr r \<Rightarrow> Inr (icc_profile @ r))"
    by (rule substitute_named [OF py_names(3) py_names(4) ne hd]) (rule k1)
  then have s4: "substitute (36 # 105 # py ''cc_profile'' @ ?rest) ?kws =
      Inr (icc_profile @ template_body @ icc_identifier @ template_tail)"
    by (simp only: s3 sum.case)
  have whole: "pdfa_def_template = template_head @ 36 # 105 # py ''cc_profile'' @ ?rest"
    by (simp only: template_split py_names(1,2) append_Cons append_Nil append_assoc)
  have "substitute pdfa_def_template ?kws =
      Inr (template_head @ icc_profile @ template_body @ icc_identifier @ template_tail)"
    by (simp only: whole substitute_literal [OF template_head_literal] s4 sum.case)
  then show ?thesis
    by (simp add: get_pdfa_def_def)
qed








lemma write_text_open_fails:
  "open_w inst p fs = Inl e \<Longrightarrow> write_text inst p data fs = (Inl e, fs)"
  by (simp add: write_text_def)

lemma generate_pdfa_ps_reaches_write:
  assumes "fsencode inst (SRGB_ICC_PROFILE inst) = Inr p"
  shows "generate_pdfa_ps inst target pdfmark (py ''sRGB'') ascii_docinfo fs =
    write_text inst target (pdfmark_text p) fs"
  using assms
  by (simp add: generate_pdfa_ps_def decode_ascii_hexlify get_pdfa_def_eq pdfmark_text_def)


text \<open>
  When the target does not open, the generator raises what the open raised and writes
  nothing.
\<close>

lemma generate_pdfa_ps_open_fails:
  assumes "fsencode inst (SRGB_ICC_PROFILE inst) = Inr p"
    and "open_w inst target fs = Inl e"
  shows "generate_pdfa_ps inst target pdfmark (py ''sRGB'') ascii_docinfo fs = (Inl e, fs)"
  by (simp only: generate_pdfa_ps_reaches_write [OF assms(1)]
      write_text_open_fails [OF assms(2)])






lemma fsencode_utf8_ascii:
  "list_all (\<lambda>c. c < 128) s \<Longrightarrow> fsencode_utf8 s = Inr (map of_nat s)"
  by (induction s) (simp_all add: is_surrogate_def)

lemma posix_path_ascii: "list_all (\<lambda>c. c < 128) (SRGB_ICC_PROFILE posix_installation)"
  by (simp add: posix_installation_def py_def)

lemma posix_fsencode:
  "fsencode posix_installation (SRGB_ICC_PROFILE posix_installation) =
     Inr (map of_nat (SRGB_ICC_PROFILE posix_installation))"
  using fsencode_utf8_ascii [OF posix_path_ascii] by (simp add: posix_installation_def)


text \<open>
  A target path that holds a NUL, and the empty path, do not open: the generator raises
  and the filesystem stays empty.
\<close>

lemma generate_pdfa_ps_nul_path:
  "generate_pdfa_ps posix_installation [97, 0, 98, 46, 112, 115] (None :: unit option)
     (py ''sRGB'') (None :: unit option) Map.empty = (Inl ValueError, Map.empty)"
proof -
  have "open_w posix_installation [97, 0, 98, 46, 112, 115] Map.empty = Inl ValueError"
    by (simp add: open_w_def posix_installation_def is_surrogate_def)
  then show ?thesis
    by (rule generate_pdfa_ps_open_fails [OF posix_fsencode])
qed

lemma generate_pdfa_ps_empty_path:
  "generate_pdfa_ps posix_installation [] (None :: unit option)
     (py ''sRGB'') (None :: unit option) Map.empty = (Inl IsADirectoryError, Map.empty)"
proof -
  have "open_w posix_installation [] Map.empty = Inl IsADirectoryError"
    by (simp add: open_w_def posix_installation_def)
  then show ?thesis
    by (rule generate_pdfa_ps_open_fails [OF posix_fsencode])
qed






text \<open>
  Claim C4. For every ICC identifier other than \<open>sRGB\<close> the generator raises
  \<open>NotImplementedError\<close> and leaves the filesystem as it was: nothing is written at
  the target path, and a file that was there is untouched.
\<close>

theorem generate_pdfa_ps_rejects:
  assumes "icc \<noteq> py ''sRGB''"
  shows "generate_pdfa_ps inst target_filename pdfmark icc ascii_docinfo fs =
    (Inl NotImplementedError, fs)"
  using assms by (simp add: generate_pdfa_ps_def)

text \<open>
  The identifier \<open>AdobeRGB\<close> on an empty filesystem.
\<close>

theorem generate_pdfa_ps_rejects_witness:
  "py ''AdobeRGB'' \<noteq> py ''sRGB'' \<and>
   generate_pdfa_ps posix_installation (py ''pdfa.ps'') (None :: unit option) (py ''AdobeRGB'')
     (None :: unit option) Map.empty = (Inl NotImplementedError, Map.empty)"
proof -
  have ne: "py ''AdobeRGB'' \<noteq> py ''sRGB''"
    by (simp add: py_def)
  show ?thesis
    using ne generate_pdfa_ps_rejects [OF ne] by simp
qed





text \<open>
  Claim C9. The legacy parameters have no effect: whatever \<open>pdfmark\<close> and
  \<open>ascii_docinfo\<close> are, of whatever type, two runs of \<open>generate_pdfa_ps\<close> on
  the same target, identifier and filesystem end in the same result and the same
  filesystem, and \<open>_get_pdfa_def\<close> returns the same text.
\<close>

theorem legacy_parameters_ignored:
  "generate_pdfa_ps inst target_filename pdfmark icc ascii_docinfo fs =
     generate_pdfa_ps inst target_filename pdfmark' icc ascii_docinfo' fs \<and>
   get_pdfa_def icc_profile icc_identifier pdfmark ascii_docinfo =
     get_pdfa_def icc_profile icc_identifier pdfmark' ascii_docinfo'"
proof
  show "generate_pdfa_ps inst target_filename pdfmark icc ascii_docinfo fs =
      generate_pdfa_ps inst target_filename pdfmark' icc ascii_docinfo' fs"
    by (simp add: generate_pdfa_ps_def get_pdfa_def_def cong: sum.case_cong)
  show "get_pdfa_def icc_profile icc_identifier pdfmark ascii_docinfo =
      get_pdfa_def icc_profile icc_identifier pdfmark' ascii_docinfo'"
    by (simp add: get_pdfa_def_def)
qed

section \<open>Properties of the PDF/A claim checker\<close>

lemma valid_codes_nonempty:
  "s \<in> set (map py [''1A'', ''1B'', ''2A'', ''2B'', ''2U'', ''3A'', ''3B'', ''3U'']) \<Longrightarrow> s \<noteq> []"
  by (auto simp: py_def)

text \<open>
  Claim C1 (as amended). In every result the checker returns, the conformance string
  is the fixed message when the status is absent or empty, and otherwise \<open>PDF/A-\<close>
  followed by the status as it was read, whether it is one of the eight codes or not.
\<close>

theorem file_claims_pdfa_conformance:
  assumes "file_claims_pdfa pikepdf_open filename = Inr d"
  shows "\<exists>meta. pikepdf_open filename = Inr meta \<and>
    d (py ''conformance'') =
      Some (Str (case pdfa_status meta of
                   None \<Rightarrow> py ''No PDF/A metadata in XMP''
                 | Some s \<Rightarrow>
                     if s = [] then py ''No PDF/A metadata in XMP'' else py ''PDF/A-'' @ s))"
proof (cases "pikepdf_open filename")
  case (Inl e)
  with assms show ?thesis
    by (simp add: file_claims_pdfa_def)
next
  case (Inr meta)
  show ?thesis
  proof (cases "pdfa_status meta")
    case None
    with assms Inr show ?thesis
      by (auto simp: file_claims_pdfa_def truthy_def)
  next
    case (Some s)
    with assms Inr show ?thesis
      by (auto simp: file_claims_pdfa_def truthy_def format_str_def Let_def split: if_splits)
  qed
qed

text \<open>
  A file whose status is \<open>1B\<close>.
\<close>

theorem file_claims_pdfa_conformance_witness:
  "file_claims_pdfa (\<lambda>f. Inr \<lparr>pdfa_status = Some (py ''1B'')\<rparr>) (py ''in.pdf'') =
     Inr [py ''pass'' \<mapsto> Bool True, py ''output'' \<mapsto> Str (py ''pdfa''),
          py ''conformance'' \<mapsto> Str (py ''PDF/A-1B'')] \<and>
   [py ''pass'' \<mapsto> Bool True, py ''output'' \<mapsto> Str (py ''pdfa''),
    py ''conformance'' \<mapsto> Str (py ''PDF/A-1B'')] (py ''conformance'') =
     Some (Str (py ''PDF/A-1B''))"
proof -
  let ?open = "\<lambda>f :: str. Inr \<lparr>pdfa_status = Some (py ''1B'')\<rparr> :: error + pdfmeta"
  let ?d = "[py ''pass'' \<mapsto> Bool True, py ''output'' \<mapsto> Str (py ''pdfa''),
             py ''conformance'' \<mapsto> Str (py ''PDF/A-1B'')]"
  have run: "file_claims_pdfa ?open (py ''in.pdf'') = Inr ?d"
    by (simp add: file_claims_pdfa_def truthy_def format_str_def py_def)
  show ?thesis
    using run file_claims_pdfa_conformance [OF run] by simp
qed

text \<open>
  The conformance string is not confined to the listed values: the status \<open>4F\<close>
  (PDF/A-4f) gives \<open>PDF/A-4F\<close>, in a dictionary that has no other key.
\<close>

theorem file_claims_pdfa_unlisted_status:
  "file_claims_pdfa (\<lambda>f. Inr \<lparr>pdfa_status = Some (py ''4F'')\<rparr>) (py ''in.pdf'') =
     Inr [py ''conformance'' \<mapsto> Str (py ''PDF/A-4F'')] \<and>
   \<not> listed_conformance (py ''PDF/A-4F'')"
  by (simp add: file_claims_pdfa_def truthy_def format_str_def listed_conformance_def py_def)

text \<open>
  Claim C2. For a file whose status is one of the eight codes \<open>1A\<close>, \<open>1B\<close>,
  \<open>2A\<close>, \<open>2B\<close>, \<open>2U\<close>, \<open>3A\<close>, \<open>3B\<close>, \<open>3U\<close> the checker returns
  exactly \<open>pass\<close> true, \<open>output\<close> \<open>pdfa\<close> and \<open>conformance\<close> \<open>PDF/A-\<close>
  followed by the status.
\<close>

theorem file_claims_pdfa_recognized:
  assumes "pikepdf_open filename = Inr meta"
    and "pdfa_status meta = Some s"
    and "s \<in> set (map py [''1A'', ''1B'', ''2A'', ''2B'', ''2U'', ''3A'', ''3B'', ''3U''])"
  shows "file_claims_pdfa pikepdf_open filename =
    Inr [py ''pass'' \<mapsto> Bool True, py ''output'' \<mapsto> Str (py ''pdfa''),
         py ''conformance'' \<mapsto> Str (py ''PDF/A-'' @ s)]"
proof -
  have "s \<noteq> []"
    using assms(3) by (rule valid_codes_nonempty)
  moreover have "Some s \<in> Some ` set (map py [''1A'', ''1B'', ''2A'', ''2B'', ''2U'', ''3A'', ''3B'', ''3U''])"
    using assms(3) by (rule imageI)
  ultimately show ?thesis
    using assms(1,2) by (simp add: file_claims_pdfa_def truthy_def format_str_def Let_def)
qed

text \<open>
  The status \<open>2B\<close> gives \<open>PDF/A-2B\<close>.
\<close>

theorem file_claims_pdfa_recognized_witness:
  "py ''2B'' \<in> set (map py [''1A'', ''1B'', ''2A'', ''2B'', ''2U'', ''3A'', ''3B'', ''3U'']) \<and>
   file_claims_pdfa (\<lambda>f. Inr \<lparr>pdfa_status = Some (py ''2B'')\<rparr>) (py ''in.pdf'') =
     Inr [py ''pass'' \<mapsto> Bool True, py ''output'' \<mapsto> Str (py ''pdfa''),
          py ''conformance'' \<mapsto> Str (py ''PDF/A-2B'')]"
proof -
  have mem: "py ''2B'' \<in> set (map py [''1A'', ''1B'', ''2A'', ''2B'', ''2U'', ''3A'', ''3B'', ''3U''])"
    by simp
  have cat: "py ''PDF/A-'' @ py ''2B'' = py ''PDF/A-2B''"
    by (simp add: py_def)
  show ?thesis
    using mem
      file_claims_pdfa_recognized [of "\<lambda>f. Inr \<lparr>pdfa_status = Some (py ''2B'')\<rparr>" "py ''in.pdf''"
        "\<lparr>pdfa_status = Some (py ''2B'')\<rparr>" "py ''2B''", OF refl _ mem]
    by (simp only: cat pdfmeta.simps simp_thms)
qed

text \<open>
  Claim C3. For a file whose status is absent or empty the checker returns exactly
  \<open>pass\<close> false, \<open>output\<close> \<open>pdf\<close> and \<open>conformance\<close>
  \<open>No PDF/A metadata in XMP\<close>.
\<close>

theorem file_claims_pdfa_no_metadata:
  assumes "pikepdf_open filename = Inr meta"
    and "pdfa_status meta = None \<or> pdfa_status meta = Some []"
  shows "file_claims_pdfa pikepdf_open filename =
    Inr [py ''pass'' \<mapsto> Bool False, py ''output'' \<mapsto> Str (py ''pdf''),
         py ''conformance'' \<mapsto> Str (py ''No PDF/A metadata in XMP'')]"
  using assms by (auto simp: file_claims_pdfa_def truthy_def)

text \<open>
  An absent status and an empty one.
\<close>

theorem file_claims_pdfa_no_metadata_witness:
  "file_claims_pdfa (\<lambda>f. Inr \<lparr>pdfa_status = None\<rparr>) (py ''scan.pdf'') =
     Inr [py ''pass'' \<mapsto> Bool False, py ''output'' \<mapsto> Str (py ''pdf''),
          py ''conformance'' \<mapsto> Str (py ''No PDF/A metadata in XMP'')] \<and>
   file_claims_pdfa (\<lambda>f. Inr \<lparr>pdfa_status = Some []\<rparr>) (py ''scan.pdf'') =
     Inr [py ''pass'' \<mapsto> Bool False, py ''output'' \<mapsto> Str (py ''pdf''),
          py ''conformance'' \<mapsto> Str (py ''No PDF/A metadata in XMP'')]"
  using
    file_claims_pdfa_no_metadata [of "\<lambda>f. Inr \<lparr>pdfa_status = None\<rparr>" "py ''scan.pdf''"
      "\<lparr>pdfa_status = None\<rparr>"]
    file_claims_pdfa_no_metadata [of "\<lambda>f. Inr \<lparr>pdfa_status = Some []\<rparr>" "py ''scan.pdf''"
      "\<lparr>pdfa_status = Some []\<rparr>"]
  by simp

end
